theory Spec2Isabelle
  imports Complex_Main "HOL-Library.AList"
begin

section \<open>JavaScript values used by the upload field\<close>

text \<open>
  A JavaScript \<^verbatim>\<open>number\<close> as the program meets it: a finite value, \<^verbatim>\<open>+Infinity\<close>
  (the result of \<^verbatim>\<open>Field.maxFiles\<close>) or \<^verbatim>\<open>NaN\<close>. Finite values are idealised as
  reals (byte sizes and counts are integers, progress percentages are fractions).
\<close>

datatype number = Num real | Infinity | NaN

text \<open>Truthiness of a number: \<^verbatim>\<open>0\<close> and \<^verbatim>\<open>NaN\<close> are falsy.\<close>

fun truthy :: "number \<Rightarrow> bool" where
  "truthy (Num r) = (r \<noteq> 0)"
| "truthy Infinity = True"
| "truthy NaN = False"

text \<open>The relational operators \<^verbatim>\<open><\<close>, \<^verbatim>\<open>>\<close> and \<^verbatim>\<open>>=\<close>; any comparison with \<^verbatim>\<open>NaN\<close> is false.\<close>

fun num_less :: "number \<Rightarrow> number \<Rightarrow> bool" where
  "num_less (Num a) (Num b) = (a < b)"
| "num_less (Num a) Infinity = True"
| "num_less _ _ = False"

definition num_greater :: "number \<Rightarrow> number \<Rightarrow> bool" where
  "num_greater a b = num_less b a"

fun num_ge :: "number \<Rightarrow> number \<Rightarrow> bool" where
  "num_ge (Num a) (Num b) = (b \<le> a)"
| "num_ge Infinity (Num b) = True"
| "num_ge Infinity Infinity = True"
| "num_ge _ _ = False"

text \<open>
  An optional numeric prop used as a guard, \<^verbatim>\<open>limit && test(limit)\<close>: the test is
  reached only when the prop is given and truthy.
\<close>

fun guarded :: "number option \<Rightarrow> (number \<Rightarrow> bool) \<Rightarrow> bool" where
  "guarded None test = False"
| "guarded (Some m) test = (truthy m \<and> test m)"

text \<open>
  The form value of a file field (\<^verbatim>\<open>value?: any\<close>): absent, \<^verbatim>\<open>null\<close>, one reference
  or an array of references.
\<close>

datatype fvalue = Undefined | Null | Ref string | Refs "string list"

section \<open>Data model of \<^verbatim>\<open>FileField\<close>\<close>

text \<open>The browser \<^verbatim>\<open>File\<close> handed to the filter and carried by an upload item.\<close>

record File =
  name :: string
  bytes :: int
  mime :: string

text \<open>
  \<^verbatim>\<open>uploadResponse?.data\<close> of an item: every field may be missing.
\<close>

record responseData =
  r_url :: "string option"
  r_filename :: "string option"
  r_originalName :: "string option"
  r_size :: "int option"
  r_mimetype :: "string option"
  r_error :: "string option"

text \<open>
  An upload item of the engine. \<^verbatim>\<open>uploadResponse\<close> stands for
  \<^verbatim>\<open>item.uploadResponse?.data\<close> (\<open>None\<close> when either level is missing).
\<close>

record item =
  item_id :: string
  item_url :: "string option"
  item_file :: "File option"
  completed :: number
  state :: string
  uploadResponse :: "responseData option"

text \<open>The object stored per item in \<^verbatim>\<open>fileMetadata\<close>.\<close>

record meta =
  url :: "string option"
  filename :: "string option"
  originalName :: "string option"
  msize :: "int option"
  mimetype :: "string option"
  isUploading :: "bool option"

text \<open>
  Everything the component does to the outside world, in the order it happens.
  The text of a rejection toast is kept as the rule that produced it and the
  values the message interpolates.
\<close>

datatype effect =
    ToastTooLarge string int "number option"
  | ToastMaxFiles "number option" string
  | ToastDuplicate string
  | ToastError string
  | ToastInfo string
  | OnChange fvalue
  | AbortItem string
  | RemovePreview string
  | FetchDelete string
  | SendBeacon "string option list"
  | FetchKeepalive "string option list"

text \<open>
  What the functions created by one render close over: the props and the values
  of the two state cells at that render.
\<close>

record closure =
  c_value :: fvalue
  c_onChange :: bool
  isMultiple :: bool
  maxFiles :: "number option"
  maxSize :: "number option"
  c_fileMetadata :: "(string \<times> meta) list"
  c_uploadProgress :: "(string \<times> number) list"

text \<open>
  A JavaScript \<^verbatim>\<open>Map\<close> keeps insertion order: \<^verbatim>\<open>set\<close> on a present key keeps its
  place and on a new key appends, which is \<open>AList.update\<close>; \<^verbatim>\<open>delete\<close> is
  \<open>AList.delete\<close>; \<^verbatim>\<open>get\<close> is \<open>map_of\<close>; \<^verbatim>\<open>values()\<close> is \<open>map snd\<close>.

  The mutable cells of one mounted component: the two React state cells (as the
  functional updates \<^verbatim>\<open>setFileMetadata(prev => ...)\<close> see them), the two refs and
  the log of effects. \<open>awaiting\<close> holds the calls of \<^verbatim>\<open>handleRemove\<close> that are
  suspended at \<^verbatim>\<open>await fetch(...)\<close>: the item and the closure the call runs in.
\<close>

record store =
  fileMetadata :: "(string \<times> meta) list"
  uploadProgress :: "(string \<times> number) list"
  uploadingCountRef :: int
  fileMetadataRef :: "(string \<times> meta) list"
  effects :: "effect list"
  awaiting :: "(string \<times> closure) list"

record props =
  p_value :: fvalue
  p_onChange :: bool
  p_isMultiple :: bool
  p_maxFiles :: "number option"
  p_maxSize :: "number option"

definition emit :: "effect \<Rightarrow> store \<Rightarrow> store" where
  "emit e s = s\<lparr>effects := effects s @ [e]\<rparr>"

text \<open>\<^verbatim>\<open>onChange?.(v)\<close>: nothing happens when the prop is absent.\<close>

definition onChange :: "closure \<Rightarrow> fvalue \<Rightarrow> store \<Rightarrow> store" where
  "onChange c v s = (if c_onChange c then emit (OnChange v) s else s)"

text \<open>\<^verbatim>\<open>uploadingCountRef.current = Math.max(0, uploadingCountRef.current - 1)\<close>\<close>

definition decrement :: "store \<Rightarrow> store" where
  "decrement s = s\<lparr>uploadingCountRef := max 0 (uploadingCountRef s - 1)\<rparr>"

section \<open>The component function\<close>

text \<open>
  One render of \<^verbatim>\<open>FileField\<close>: the new closures capture the props and the current
  state cells, and the effect of lines 41-43 stores the rendered metadata in
  \<^verbatim>\<open>fileMetadataRef\<close>.
\<close>

definition FileField :: "props \<Rightarrow> store \<Rightarrow> closure \<times> store" where
  "FileField p s =
     (\<lparr>c_value = p_value p, c_onChange = p_onChange p, isMultiple = p_isMultiple p,
       maxFiles = p_maxFiles p, maxSize = p_maxSize p,
       c_fileMetadata = fileMetadata s, c_uploadProgress = uploadProgress s\<rparr>,
      s\<lparr>fileMetadataRef := fileMetadata s\<rparr>)"

definition initial :: store where
  "initial = \<lparr>fileMetadata = [], uploadProgress = [], uploadingCountRef = 0,
              fileMetadataRef = [], effects = [], awaiting = []\<rparr>"

subsection \<open>Form reset\<close>

text \<open>
  \<open>contains\<close> is \<^verbatim>\<open>form.contains(scrollContainerRef.current)\<close>: whether the form
  being reset is the one around this component.
\<close>

definition handleFormReset :: "closure \<Rightarrow> bool \<Rightarrow> store \<Rightarrow> store" where
  "handleFormReset c contains s =
     (if contains then
        onChange c (if isMultiple c then Refs [] else Null)
          (s\<lparr>fileMetadata := [], uploadProgress := [], uploadingCountRef := 0\<rparr>)
      else s)"

subsection \<open>Admission filter\<close>

definition currentCount :: "store \<Rightarrow> int" where
  "currentCount s = int (length (fileMetadataRef s)) + uploadingCountRef s"

definition tooLarge :: "closure \<Rightarrow> File \<Rightarrow> bool" where
  "tooLarge c f =
     guarded (maxSize c) (\<lambda>m. num_greater (Num (real_of_int (bytes f))) m)"

definition limitReached :: "closure \<Rightarrow> store \<Rightarrow> bool" where
  "limitReached c s =
     guarded (maxFiles c) (\<lambda>m. num_ge (Num (real_of_int (currentCount s))) m)"

definition isDuplicate :: "File \<Rightarrow> store \<Rightarrow> bool" where
  "isDuplicate f s =
     list_ex (\<lambda>m. originalName m = Some (name f) \<and> msize m = Some (bytes f))
       (map snd (fileMetadataRef s))"

definition fileFilter :: "closure \<Rightarrow> File \<Rightarrow> store \<Rightarrow> bool \<times> store" where
  "fileFilter c f s =
     (if tooLarge c f then
        (False, emit (ToastTooLarge (name f) (bytes f) (maxSize c)) s)
      else if limitReached c s then
        (False, emit (ToastMaxFiles (maxFiles c) (name f)) s)
      else if isDuplicate f s then
        (False, emit (ToastDuplicate (name f)) s)
      else (True, s))"

subsection \<open>Upload lifecycle listeners\<close>

definition useItemStartListener :: "item \<Rightarrow> store \<Rightarrow> store" where
  "useItemStartListener it s =
     s\<lparr>uploadingCountRef := uploadingCountRef s + 1,
       fileMetadata := AList.update (item_id it)
         \<lparr>url = item_url it,
          filename = map_option name (item_file it),
          originalName = map_option name (item_file it),
          msize = map_option bytes (item_file it),
          mimetype = map_option mime (item_file it),
          isUploading = None\<rparr> (fileMetadata s)\<rparr>"

definition useItemProgressListener :: "item \<Rightarrow> store \<Rightarrow> store" where
  "useItemProgressListener it s =
     (if num_less (completed it) (Num 100) then
        s\<lparr>uploadProgress := AList.update (item_id it) (completed it) (uploadProgress s)\<rparr>
      else
        s\<lparr>uploadProgress := AList.delete (item_id it) (uploadProgress s)\<rparr>)"

text \<open>\<^verbatim>\<open>item?.uploadResponse?.data?.error || 'Upload failed'\<close>\<close>

definition errorMessage :: "item \<Rightarrow> string" where
  "errorMessage it =
     (case uploadResponse it of
        None \<Rightarrow> ''Upload failed''
      | Some d \<Rightarrow> (case r_error d of
          None \<Rightarrow> ''Upload failed''
        | Some e \<Rightarrow> (if e = [] then ''Upload failed'' else e)))"

definition useItemErrorListener :: "item \<Rightarrow> store \<Rightarrow> store" where
  "useItemErrorListener it s =
     decrement
       ((emit (ToastError (errorMessage it)) s)
          \<lparr>fileMetadata := AList.delete (item_id it) (fileMetadata s),
           uploadProgress := AList.delete (item_id it) (uploadProgress s)\<rparr>)"

text \<open>
  \<^verbatim>\<open>const url = responseData?.url ?? null\<close> followed by \<^verbatim>\<open>if (!url) return\<close>: the
  reference is usable when it is present and not the empty string.
\<close>

definition usableUrl :: "item \<Rightarrow> string option" where
  "usableUrl it =
     (case uploadResponse it of
        None \<Rightarrow> None
      | Some d \<Rightarrow> (case r_url d of
          None \<Rightarrow> None
        | Some u \<Rightarrow> (if u = [] then None else Some u)))"

text \<open>
  The object written over the tracked entry on a confirmed finish:
  \<^verbatim>\<open>{...old, url: responseData?.url, ..., isUploading: false}\<close>.
\<close>

definition confirmed :: "meta \<Rightarrow> responseData option \<Rightarrow> meta" where
  "confirmed old d =
     old\<lparr>url := Option.bind d r_url, filename := Option.bind d r_filename,
         originalName := Option.bind d r_originalName, msize := Option.bind d r_size,
         mimetype := Option.bind d r_mimetype, isUploading := Some False\<rparr>"

definition onUploaded :: "closure \<Rightarrow> fvalue \<Rightarrow> store \<Rightarrow> store" where
  "onUploaded c payload s = onChange c payload s"

text \<open>\<^verbatim>\<open>Array.isArray(value) ? value : []\<close>\<close>

fun currentValue :: "fvalue \<Rightarrow> string list" where
  "currentValue (Refs vs) = vs"
| "currentValue _ = []"

definition useItemFinishListener :: "closure \<Rightarrow> item \<Rightarrow> store \<Rightarrow> store" where
  "useItemFinishListener c it s =
     (let s1 = decrement s in
      if state it = ''finished'' then
        (case usableUrl it of
           None \<Rightarrow> s1
         | Some u \<Rightarrow>
             (let s2 = s1\<lparr>fileMetadata :=
                        (case map_of (fileMetadata s1) (item_id it) of
                           None \<Rightarrow> fileMetadata s1
                         | Some old \<Rightarrow>
                             AList.update (item_id it) (confirmed old (uploadResponse it))
                               (fileMetadata s1))\<rparr>
              in if isMultiple c
                 then onUploaded c (Refs (currentValue (c_value c) @ [u])) s2
                 else onUploaded c (Ref u) s2))
      else s1)"

subsection \<open>Cleanup of temporary files\<close>

text \<open>
  \<open>beacon\<close> is the result of \<^verbatim>\<open>navigator.sendBeacon\<close>: whether the browser queued
  the request. Only then is the beacon a request that was issued; otherwise the
  keepalive \<^verbatim>\<open>fetch\<close> is.
\<close>

definition cleanupAllFiles :: "bool \<Rightarrow> store \<Rightarrow> store" where
  "cleanupAllFiles beacon s =
     (let filenames = map (\<lambda>m. filename m) (map snd (fileMetadataRef s)) in
      if length filenames = 0 then s
      else if beacon then emit (SendBeacon filenames) s
      else emit (FetchKeepalive filenames) s)"

definition handleBeforeUnload :: "bool \<Rightarrow> store \<Rightarrow> store" where
  "handleBeforeUnload beacon s = cleanupAllFiles beacon s"

text \<open>The cleanup function of the mount effect (lines 248-251).\<close>

definition unmount :: "bool \<Rightarrow> store \<Rightarrow> store" where
  "unmount beacon s = cleanupAllFiles beacon s"

subsection \<open>The preview's button\<close>

definition handleCancel :: "string \<Rightarrow> store \<Rightarrow> store" where
  "handleCancel i s =
     emit (ToastInfo ''Upload cancelled'')
       (decrement
          ((emit (RemovePreview i) (emit (AbortItem i) s))
             \<lparr>uploadProgress := AList.delete i (uploadProgress s)\<rparr>))"

text \<open>
  \<^verbatim>\<open>`/api/upload/temp/${metadata?.filename}`\<close>: a missing name is interpolated as
  \<^verbatim>\<open>undefined\<close>.
\<close>

definition deleteUrl :: "meta option \<Rightarrow> string" where
  "deleteUrl metadata =
     ''/api/upload/temp/'' @
       (case metadata of
          None \<Rightarrow> ''undefined''
        | Some m \<Rightarrow> (case filename m of None \<Rightarrow> ''undefined'' | Some n \<Rightarrow> n))"

text \<open>\<^verbatim>\<open>metadata?.url\<close>\<close>

definition metadataUrl :: "meta option \<Rightarrow> string option" where
  "metadataUrl metadata = (case metadata of None \<Rightarrow> None | Some m \<Rightarrow> url m)"

text \<open>
  \<^verbatim>\<open>handleRemove\<close> is an \<^verbatim>\<open>async\<close> function. Up to \<^verbatim>\<open>await fetch(...)\<close> it runs
  in the click: the preview is removed, the entry is deleted and the \<^verbatim>\<open>DELETE\<close>
  request is issued; the call is then suspended until the request settles.
\<close>

definition handleRemove :: "closure \<Rightarrow> string \<Rightarrow> store \<Rightarrow> store" where
  "handleRemove c i s =
     (let s1 = emit (RemovePreview i) s;
          metadata = map_of (c_fileMetadata c) i;
          s2 = s1\<lparr>fileMetadata := AList.delete i (fileMetadata s1)\<rparr>;
          s3 = emit (FetchDelete (deleteUrl metadata)) s2
      in s3\<lparr>awaiting := awaiting s3 @ [(i, c)]\<rparr>)"

text \<open>
  The \<^verbatim>\<open>finally\<close> block of \<^verbatim>\<open>handleRemove\<close> (lines 317-326), run when the request has
  settled, whether it failed or not (a failure is only logged to the console). It
  reads the variables of the suspended call: \<^verbatim>\<open>isMultiple\<close>, \<^verbatim>\<open>value\<close>, \<^verbatim>\<open>onChange\<close>
  and \<^verbatim>\<open>metadata\<close> are those of the render in which the button was clicked.
\<close>

definition handleRemove_finally :: "closure \<Rightarrow> string \<Rightarrow> store \<Rightarrow> store" where
  "handleRemove_finally c i s =
     (let metadata = map_of (c_fileMetadata c) i;
          newValue = (case (isMultiple c, c_value c) of
                        (True, Refs vs) \<Rightarrow> Refs (filter (\<lambda>u. Some u \<noteq> metadataUrl metadata) vs)
                      | _ \<Rightarrow> Null)
      in onChange c newValue s)"

text \<open>
  The request for item \<open>i\<close> settles: the oldest suspended call for \<open>i\<close> resumes.
\<close>

definition settle :: "string \<Rightarrow> store \<Rightarrow> store" where
  "settle i s =
     (case find (\<lambda>(j, c). j = i) (awaiting s) of
        None \<Rightarrow> s
      | Some (j, c) \<Rightarrow>
          handleRemove_finally c i (s\<lparr>awaiting := remove1 (j, c) (awaiting s)\<rparr>))"

text \<open>
  The button of \<^verbatim>\<open>CustomPreview\<close>: the preview renders nothing without metadata,
  and cancels or removes depending on a progress entry at the last render.
\<close>

definition onClick :: "closure \<Rightarrow> string \<Rightarrow> store \<Rightarrow> store" where
  "onClick c i s =
     (case map_of (c_fileMetadata c) i of
        None \<Rightarrow> s
      | Some _ \<Rightarrow>
          (if map_of (c_uploadProgress c) i \<noteq> None then handleCancel i s
           else handleRemove c i s))"

section \<open>The \<^verbatim>\<open>Field\<close> class\<close>

record FieldConfig =
  config_isMultiple :: "bool option"
  config_maxFiles :: "number option"
  config_maxSize :: "number option"

text \<open>\<^verbatim>\<open>get isMultiple() { return this._config.isMultiple || false; }\<close>\<close>

definition Field_isMultiple :: "FieldConfig \<Rightarrow> bool" where
  "Field_isMultiple cfg = (case config_isMultiple cfg of None \<Rightarrow> False | Some b \<Rightarrow> b)"

text \<open>\<^verbatim>\<open>return this.isMultiple ? this._config.maxFiles || +Infinity : 1;\<close>\<close>

definition Field_maxFiles :: "FieldConfig \<Rightarrow> number" where
  "Field_maxFiles cfg =
     (if Field_isMultiple cfg then
        (case config_maxFiles cfg of
           None \<Rightarrow> Infinity
         | Some m \<Rightarrow> (if truthy m then m else Infinity))
      else Num 1)"

definition Field_maxSize :: "FieldConfig \<Rightarrow> number option" where
  "Field_maxSize cfg = config_maxSize cfg"

text \<open>
  The props the \<^verbatim>\<open>Field\<close> component passes to \<^verbatim>\<open>FileField\<close> for a field of type
  \<^verbatim>\<open>file\<close>: \<^verbatim>\<open>isMultiple\<close>, \<^verbatim>\<open>maxFiles\<close> and \<^verbatim>\<open>maxSize\<close> come from the accessors,
  the value and the callback from the form controller.
\<close>

definition fileProps :: "FieldConfig \<Rightarrow> fvalue \<Rightarrow> props" where
  "fileProps cfg v =
     \<lparr>p_value = v, p_onChange = True, p_isMultiple = Field_isMultiple cfg,
      p_maxFiles = Some (Field_maxFiles cfg), p_maxSize = Field_maxSize cfg\<rparr>"

section \<open>The component as an event-driven machine\<close>

text \<open>
  Everything that can happen to a mounted component: a render with new props, a
  file offered to the filter, the four lifecycle events of the upload engine, a
  click on a preview's button, a \<^verbatim>\<open>DELETE\<close> request that settles, a \<^verbatim>\<open>reset\<close>
  event on the window and the page being left. Listeners are those of the latest
  render.
\<close>

datatype event =
    Render props
  | Selected File
  | ItemStart item
  | ItemProgress item
  | ItemError item
  | ItemFinish item
  | Click string
  | DeleteSettled string
  | FormReset bool
  | BeforeUnload bool

fun step :: "closure \<times> store \<Rightarrow> event \<Rightarrow> closure \<times> store" where
  "step (c, s) (Render p) = FileField p s"
| "step (c, s) (Selected f) = (c, snd (fileFilter c f s))"
| "step (c, s) (ItemStart it) = (c, useItemStartListener it s)"
| "step (c, s) (ItemProgress it) = (c, useItemProgressListener it s)"
| "step (c, s) (ItemError it) = (c, useItemErrorListener it s)"
| "step (c, s) (ItemFinish it) = (c, useItemFinishListener c it s)"
| "step (c, s) (Click i) = (c, onClick c i s)"
| "step (c, s) (DeleteSettled i) = (c, settle i s)"
| "step (c, s) (FormReset contains) = (c, handleFormReset c contains s)"
| "step (c, s) (BeforeUnload beacon) = (c, handleBeforeUnload beacon s)"

fun run :: "closure \<times> store \<Rightarrow> event list \<Rightarrow> closure \<times> store" where
  "run cs [] = cs"
| "run cs (e # es) = run (step cs e) es"

text \<open>The first render of a component.\<close>

definition mount :: "props \<Rightarrow> closure \<times> store" where
  "mount p = FileField p initial"

section \<open>Concrete inputs\<close>

definition multipleProps :: "fvalue \<Rightarrow> props" where
  "multipleProps v =
     \<lparr>p_value = v, p_onChange = True, p_isMultiple = True,
      p_maxFiles = Some (Num 3), p_maxSize = Some (Num 1000000)\<rparr>"

definition singleProps :: "fvalue \<Rightarrow> props" where
  "singleProps v =
     \<lparr>p_value = v, p_onChange = True, p_isMultiple = False,
      p_maxFiles = Some (Num 1), p_maxSize = Some (Num 1000000)\<rparr>"

definition fileA :: File where
  "fileA = \<lparr>name = ''a.png'', bytes = 500, mime = ''image/png''\<rparr>"

definition fileB :: File where
  "fileB = \<lparr>name = ''b.pdf'', bytes = 700, mime = ''application/pdf''\<rparr>"

definition bigFile :: File where
  "bigFile = \<lparr>name = ''big.bin'', bytes = 2000000, mime = ''application/octet-stream''\<rparr>"

definition startedA :: item where
  "startedA = \<lparr>item_id = ''A'', item_url = None, item_file = Some fileA,
               completed = Num 0, state = ''added'', uploadResponse = None\<rparr>"

definition startedB :: item where
  "startedB = \<lparr>item_id = ''B'', item_url = None, item_file = Some fileB,
               completed = Num 0, state = ''added'', uploadResponse = None\<rparr>"

definition halfwayA :: item where
  "halfwayA = startedA\<lparr>completed := Num 50, state := ''uploading''\<rparr>"

definition finishedA :: item where
  "finishedA = startedA\<lparr>completed := Num 100, state := ''finished'',
     uploadResponse := Some \<lparr>r_url = Some ''r1'', r_filename = Some ''tmp-1.png'',
       r_originalName = Some ''a.png'', r_size = Some 500, r_mimetype = Some ''image/png'',
       r_error = None\<rparr>\<rparr>"

definition finishedB :: item where
  "finishedB = startedB\<lparr>completed := Num 100, state := ''finished'',
     uploadResponse := Some \<lparr>r_url = Some ''r2'', r_filename = Some ''tmp-2.pdf'',
       r_originalName = Some ''b.pdf'', r_size = Some 700, r_mimetype = Some ''application/pdf'',
       r_error = None\<rparr>\<rparr>"

definition degradedA :: item where
  "degradedA = startedA\<lparr>completed := Num 100, state := ''finished'',
     uploadResponse := Some \<lparr>r_url = None, r_filename = Some ''tmp-1.png'',
       r_originalName = Some ''a.png'', r_size = Some 500, r_mimetype = Some ''image/png'',
       r_error = None\<rparr>\<rparr>"

text \<open>Two uploads started together in multiple mode, both shown by a render.\<close>

definition bothStarted :: "closure \<times> store" where
  "bothStarted =
     run (mount (multipleProps (Refs [])))
       [ItemStart startedA, ItemStart startedB, Render (multipleProps (Refs []))]"

text \<open>The state after B finished first and the form value it emitted was rendered.\<close>

definition afterB :: "closure \<times> store" where
  "afterB = run bothStarted [ItemFinish finishedB, Render (multipleProps (Refs [''r2'']))]"

text \<open>Both uploads finished, each followed by a render with the emitted value.\<close>

definition bothFinished :: "closure \<times> store" where
  "bothFinished =
     run bothStarted
       [ItemFinish finishedB, Render (multipleProps (Refs [''r2''])),
        ItemFinish finishedA, Render (multipleProps (Refs [''r2'', ''r1'']))]"

text \<open>Single mode: one upload started and finished, and the value was rendered.\<close>

definition oneFinished :: "closure \<times> store" where
  "oneFinished =
     run (mount (singleProps Null))
       [ItemStart startedA, ItemFinish finishedA, Render (singleProps (Ref ''r1''))]"

text \<open>
  Multiple mode: an upload that reported 50 percent is cancelled with the button of
  its preview, and the component renders again.
\<close>

definition cancelledA :: "closure \<times> store" where
  "cancelledA =
     run (mount (multipleProps (Refs [])))
       [ItemStart startedA, ItemProgress halfwayA, Render (multipleProps (Refs [])),
        Click ''A'', Render (multipleProps (Refs []))]"

text \<open>Single mode: one file passed the filter and its upload started.\<close>

definition oneUploading :: "closure \<times> store" where
  "oneUploading =
     run (mount (singleProps Null))
       [Selected fileA, ItemStart startedA, Render (singleProps Null)]"

text \<open>A progress event that reports 100 percent.\<close>

definition doneA :: item where
  "doneA = startedA\<lparr>completed := Num 100, state := ''uploading''\<rparr>"

text \<open>Field configurations: single mode with a configured count, multiple mode with none.\<close>

definition singleConfig :: FieldConfig where
  "singleConfig = \<lparr>config_isMultiple = None, config_maxFiles = Some (Num 5),
                   config_maxSize = Some (Num 1000000)\<rparr>"

definition multipleConfig :: FieldConfig where
  "multipleConfig = \<lparr>config_isMultiple = Some True, config_maxFiles = None,
                     config_maxSize = None\<rparr>"

text \<open>
  Both uploads finished before the component rendered again, and the last value the form
  received was then rendered.
\<close>

definition staleRendered :: "closure \<times> store" where
  "staleRendered =
     run bothStarted
       [ItemFinish finishedB, ItemFinish finishedA, Render (multipleProps (Refs [''r1'']))]"

text \<open>Single mode: the upload finished and the component has not rendered since.\<close>

definition finishedUnrendered :: "closure \<times> store" where
  "finishedUnrendered =
     run (mount (singleProps Null))
       [ItemStart startedA, Render (singleProps Null), ItemFinish finishedA]"

text \<open>A single-mode file field as the \<^verbatim>\<open>Field\<close> component mounts it.\<close>

definition singleField :: "closure \<times> store" where
  "singleField = mount (fileProps singleConfig Null)"

section \<open>Predicates used in the statements\<close>

text \<open>The effects that are user notifications.\<close>

definition isToast :: "effect \<Rightarrow> bool" where
  "isToast e = (case e of ToastTooLarge _ _ _ \<Rightarrow> True | ToastMaxFiles _ _ \<Rightarrow> True
     | ToastDuplicate _ \<Rightarrow> True | ToastError _ \<Rightarrow> True | ToastInfo _ \<Rightarrow> True | _ \<Rightarrow> False)"

text \<open>Every progress entry is strictly below 100.\<close>

definition incomplete :: "store \<Rightarrow> bool" where
  "incomplete s = list_all (\<lambda>(i, v). num_less v (Num 100)) (uploadProgress s)"

text \<open>The three association lists have no key twice, as a \<^verbatim>\<open>Map\<close> has not.\<close>

definition wellformed :: "store \<Rightarrow> bool" where
  "wellformed s =
     (distinct (map fst (fileMetadata s)) \<and> distinct (map fst (fileMetadataRef s)) \<and>
      distinct (map fst (uploadProgress s)))"

section \<open>Unfolding the model\<close>

lemmas handler_defs =
  emit_def onChange_def onUploaded_def decrement_def FileField_def initial_def mount_def
  handleFormReset_def currentCount_def tooLarge_def limitReached_def isDuplicate_def
  fileFilter_def useItemStartListener_def useItemProgressListener_def errorMessage_def
  useItemErrorListener_def usableUrl_def confirmed_def useItemFinishListener_def
  cleanupAllFiles_def handleBeforeUnload_def unmount_def handleCancel_def deleteUrl_def
  metadataUrl_def handleRemove_def handleRemove_finally_def settle_def onClick_def
  num_greater_def

lemmas input_defs =
  multipleProps_def singleProps_def fileA_def fileB_def bigFile_def startedA_def
  startedB_def halfwayA_def finishedA_def finishedB_def degradedA_def bothStarted_def

section \<open>The association lists stay maps\<close>

text \<open>
  From the first render on, no event puts a key twice into a list, so the length of a
  list is the \<^verbatim>\<open>size\<close> of the \<^verbatim>\<open>Map\<close> it stands for.
\<close>

lemma wellformed_step: "wellformed (snd cs) \<Longrightarrow> wellformed (snd (step cs e))"
proof (cases cs)
  case (Pair c s)
  assume w: "wellformed (snd cs)"
  show ?thesis
  proof (cases e)
    case (ItemFinish it)
    with Pair w show ?thesis
      by (auto simp: wellformed_def useItemFinishListener_def decrement_def onUploaded_def
          onChange_def emit_def Let_def AList.distinct_update split: option.split)
  next
    case (Click i)
    with Pair w show ?thesis
      by (auto simp: wellformed_def onClick_def handleCancel_def handleRemove_def
          decrement_def onChange_def emit_def Let_def AList.distinct_delete
          split: option.split)
  next
    case (DeleteSettled i)
    with Pair w show ?thesis
      by (auto simp: wellformed_def settle_def handleRemove_finally_def onChange_def
          emit_def Let_def split: option.split)
  qed (use Pair w in \<open>auto simp: wellformed_def handler_defs Let_def AList.distinct_update
      AList.distinct_delete\<close>)
qed

lemma wellformed_run: "wellformed (snd cs) \<Longrightarrow> wellformed (snd (run cs es))"
  by (induction es arbitrary: cs) (simp_all add: wellformed_step)

lemma wellformed_mount: "wellformed (snd (run (mount p) es))"
  by (rule wellformed_run) (simp add: wellformed_def mount_def FileField_def initial_def)

section \<open>Committed value on finish\<close>

text \<open>
  C1 (as amended). In multiple mode, a finish event with a usable reference calls the
  value-changed callback with that reference appended to the \<^verbatim>\<open>value\<close> prop captured
  by the latest render (the empty list when that prop is not an array).
\<close>

theorem finish_appends_to_captured_value:
  assumes "isMultiple c" and "c_onChange c"
    and "state it = ''finished''" and "usableUrl it = Some u"
  shows "effects (useItemFinishListener c it s) =
           effects s @ [OnChange (Refs (currentValue (c_value c) @ [u]))]"
  using assms
  by (simp add: useItemFinishListener_def onUploaded_def onChange_def emit_def decrement_def
      Let_def)

text \<open>
  The scenario of C1 when the value emitted for B is rendered before A finishes: the
  second call of the callback carries \<^verbatim>\<open>["r2", "r1"]\<close>.
\<close>

theorem finish_appends_to_captured_value_witness:
  "isMultiple (fst afterB) \<and> c_onChange (fst afterB) \<and> state finishedA = ''finished'' \<and>
   usableUrl finishedA = Some ''r1'' \<and>
   effects (snd afterB) = [OnChange (Refs [''r2''])] \<and>
   effects (useItemFinishListener (fst afterB) finishedA (snd afterB)) =
     [OnChange (Refs [''r2'']), OnChange (Refs [''r2'', ''r1''])]"
proof -
  have c: "isMultiple (fst afterB)" "c_onChange (fst afterB)"
    "c_value (fst afterB) = Refs [''r2'']"
    by (simp_all add: afterB_def handler_defs input_defs)
  have i: "state finishedA = ''finished''" "usableUrl finishedA = Some ''r1''"
    by (simp_all add: usableUrl_def input_defs)
  have e: "effects (snd afterB) = [OnChange (Refs [''r2''])]"
    by (simp add: afterB_def handler_defs input_defs)
  from finish_appends_to_captured_value [OF c(1) c(2) i(1) i(2), of "snd afterB"] c i e
  show ?thesis by simp
qed

text \<open>
  C1 as stated fails: when A finishes before the component has rendered the value
  emitted for B, the listener still holds the value of the earlier render, and the
  last value handed to the form is \<^verbatim>\<open>["r1"]\<close>.
\<close>

theorem stale_value_drops_sibling:
  "effects (snd (run bothStarted [ItemFinish finishedB, ItemFinish finishedA])) =
     [OnChange (Refs [''r2'']), OnChange (Refs [''r1''])] \<and>
   last (effects (snd (run bothStarted [ItemFinish finishedB, ItemFinish finishedA]))) \<noteq>
     OnChange (Refs [''r2'', ''r1''])"
  by (simp add: handler_defs input_defs)

section \<open>Error and cancel\<close>

text \<open>
  The error listener removes the item from both maps and decrements the counter,
  clamped at zero.
\<close>

lemma useItemErrorListener_purges:
  "map_of (fileMetadata (useItemErrorListener it s)) (item_id it) = None \<and>
   map_of (uploadProgress (useItemErrorListener it s)) (item_id it) = None \<and>
   uploadingCountRef (useItemErrorListener it s) = max 0 (uploadingCountRef s - 1)"
  by (simp add: useItemErrorListener_def decrement_def emit_def AList.delete_conv')

text \<open>
  \<^verbatim>\<open>handleCancel\<close> removes the progress entry and decrements the counter, and does not
  touch \<^verbatim>\<open>fileMetadata\<close>.
\<close>

lemma handleCancel_store:
  "fileMetadata (handleCancel i s) = fileMetadata s \<and>
   map_of (uploadProgress (handleCancel i s)) i = None \<and>
   uploadingCountRef (handleCancel i s) = max 0 (uploadingCountRef s - 1)"
  by (simp add: handleCancel_def decrement_def emit_def AList.delete_conv')

text \<open>
  C2. After an error or a cancel of item X no progress entry and no metadata entry for X
  remains, and the counter drops by one, not below zero. The code at the cancel of an
  upload in progress: the progress entry is gone and the counter is back at zero, but
  the metadata entry of the cancelled item is still there after the next render, and
  the filter then refuses the same file as a duplicate.
\<close>

theorem cancel_leaves_tracked_entry:
  "map_of (uploadProgress (snd cancelledA)) ''A'' = None \<and>
   uploadingCountRef (snd cancelledA) = 0 \<and>
   map_of (fileMetadata (snd cancelledA)) ''A'' =
     Some \<lparr>url = None, filename = Some ''a.png'', originalName = Some ''a.png'',
           msize = Some 500, mimetype = Some ''image/png'', isUploading = None\<rparr> \<and>
   fileFilter (fst cancelledA) fileA (snd cancelledA) =
     (False, emit (ToastDuplicate ''a.png'') (snd cancelledA))"
  by (simp add: cancelledA_def handler_defs input_defs)

section \<open>Admission filter\<close>

text \<open>
  C3 as stated fails: in single mode with a maximum of one file, the file is accepted,
  its upload starts, and the item is then counted once as tracked and once as in
  flight: the sum is 2.
\<close>

theorem tracked_plus_in_flight_exceeds_limit:
  "fst (fileFilter (fst (mount (singleProps Null))) fileA (snd (mount (singleProps Null)))) \<and>
   maxFiles (fst oneUploading) = Some (Num 1) \<and>
   length (fileMetadata (snd oneUploading)) = 1 \<and>
   uploadingCountRef (snd oneUploading) = 1 \<and>
   currentCount (snd oneUploading) = 2 \<and>
   \<not> num_ge (Num 1) (Num (real_of_int (currentCount (snd oneUploading))))"
  by (simp add: oneUploading_def handler_defs input_defs)

text \<open>
  C3 (as amended). With a maximum count configured, the filter rejects every candidate
  while the tracked-plus-in-flight count it reads is at or above the limit, an accepted
  candidate was seen at a count strictly below the limit, and the filter leaves the count
  as it was, for the next file of the same selection.
\<close>

theorem fileFilter_rejects_at_limit:
  "(maxFiles c = Some m \<and> truthy m \<and> num_ge (Num (real_of_int (currentCount s))) m
      \<longrightarrow> \<not> fst (fileFilter c f s)) \<and>
   (maxFiles c = Some m \<and> truthy m \<and> fst (fileFilter c f s)
      \<longrightarrow> num_less (Num (real_of_int (currentCount s))) m) \<and>
   currentCount (snd (fileFilter c f s)) = currentCount s"
proof -
  have a: "num_less (Num x) m" if "truthy m" "\<not> num_ge (Num x) m" for x
    using that by (cases m) auto
  show ?thesis
    by (auto simp: fileFilter_def limitReached_def currentCount_def emit_def intro: a)
qed

theorem fileFilter_rejects_at_limit_witness:
  "maxFiles (fst oneUploading) = Some (Num 1) \<and> truthy (Num 1) \<and>
   num_ge (Num (real_of_int (currentCount (snd oneUploading)))) (Num 1) \<and>
   \<not> fst (fileFilter (fst oneUploading) fileB (snd oneUploading)) \<and>
   maxFiles (fst (mount (singleProps Null))) = Some (Num 1) \<and>
   fst (fileFilter (fst (mount (singleProps Null))) fileB (snd (mount (singleProps Null)))) \<and>
   num_less (Num (real_of_int (currentCount (snd (mount (singleProps Null)))))) (Num 1)"
proof -
  have h: "maxFiles (fst oneUploading) = Some (Num 1)" "truthy (Num 1)"
    "num_ge (Num (real_of_int (currentCount (snd oneUploading)))) (Num 1)"
    by (simp_all add: oneUploading_def handler_defs input_defs)
  have g: "maxFiles (fst (mount (singleProps Null))) = Some (Num 1)"
    "fst (fileFilter (fst (mount (singleProps Null))) fileB (snd (mount (singleProps Null))))"
    by (simp_all add: handler_defs input_defs)
  from fileFilter_rejects_at_limit [of "fst oneUploading" "Num 1" "snd oneUploading" fileB]
    fileFilter_rejects_at_limit [of "fst (mount (singleProps Null))" "Num 1"
      "snd (mount (singleProps Null))" fileB] h g
  show ?thesis by blast
qed

text \<open>A duplicate is a tracked entry with the same name and the same size in bytes.\<close>

lemma isDuplicate_iff:
  "isDuplicate f s \<longleftrightarrow>
     (\<exists>(i, m) \<in> set (fileMetadataRef s). originalName m = Some (name f) \<and> msize m = Some (bytes f))"
  by (simp add: isDuplicate_def list_ex_iff case_prod_unfold)

text \<open>
  C5. The filter tests the size limit, then the count limit, then the duplicate rule;
  the first rule that matches rejects the file with one notification, and the maps and
  the counter stay as they were; a file no rule matches is accepted and nothing changes.
\<close>

theorem fileFilter_rule_order:
  "(tooLarge c f \<longrightarrow>
      fileFilter c f s = (False, emit (ToastTooLarge (name f) (bytes f) (maxSize c)) s)) \<and>
   (\<not> tooLarge c f \<and> limitReached c s \<longrightarrow>
      fileFilter c f s = (False, emit (ToastMaxFiles (maxFiles c) (name f)) s)) \<and>
   (\<not> tooLarge c f \<and> \<not> limitReached c s \<and> isDuplicate f s \<longrightarrow>
      fileFilter c f s = (False, emit (ToastDuplicate (name f)) s)) \<and>
   (\<not> tooLarge c f \<and> \<not> limitReached c s \<and> \<not> isDuplicate f s \<longrightarrow>
      fileFilter c f s = (True, s)) \<and>
   (\<not> fst (fileFilter c f s) \<longrightarrow>
      (\<exists>e. isToast e \<and> effects (snd (fileFilter c f s)) = effects s @ [e])) \<and>
   (fst (fileFilter c f s) \<longrightarrow> snd (fileFilter c f s) = s) \<and>
   fileMetadata (snd (fileFilter c f s)) = fileMetadata s \<and>
   fileMetadataRef (snd (fileFilter c f s)) = fileMetadataRef s \<and>
   uploadProgress (snd (fileFilter c f s)) = uploadProgress s \<and>
   uploadingCountRef (snd (fileFilter c f s)) = uploadingCountRef s"
  by (simp add: fileFilter_def emit_def isToast_def)

theorem fileFilter_rule_order_witness:
  "tooLarge (fst (mount (singleProps Null))) bigFile \<and>
   fileFilter (fst (mount (singleProps Null))) bigFile initial =
     (False, initial\<lparr>effects := [ToastTooLarge ''big.bin'' 2000000 (Some (Num 1000000))]\<rparr>) \<and>
   \<not> tooLarge (fst oneUploading) fileA \<and> limitReached (fst oneUploading) (snd oneUploading) \<and>
   isDuplicate fileA (snd oneUploading) \<and>
   fileFilter (fst oneUploading) fileA (snd oneUploading) =
     (False, emit (ToastMaxFiles (Some (Num 1)) ''a.png'') (snd oneUploading)) \<and>
   \<not> tooLarge (fst cancelledA) fileA \<and> \<not> limitReached (fst cancelledA) (snd cancelledA) \<and>
   isDuplicate fileA (snd cancelledA) \<and>
   fileFilter (fst cancelledA) fileA (snd cancelledA) =
     (False, emit (ToastDuplicate ''a.png'') (snd cancelledA)) \<and>
   \<not> tooLarge (fst cancelledA) fileB \<and> \<not> isDuplicate fileB (snd cancelledA) \<and>
   fileFilter (fst cancelledA) fileB (snd cancelledA) = (True, snd cancelledA)"
proof -
  have a: "tooLarge (fst (mount (singleProps Null))) bigFile"
    by (simp add: handler_defs input_defs)
  have b: "\<not> tooLarge (fst oneUploading) fileA" "limitReached (fst oneUploading) (snd oneUploading)"
    "isDuplicate fileA (snd oneUploading)"
    by (simp_all add: oneUploading_def handler_defs input_defs)
  have d: "\<not> tooLarge (fst cancelledA) fileA" "\<not> limitReached (fst cancelledA) (snd cancelledA)"
    "isDuplicate fileA (snd cancelledA)" "\<not> tooLarge (fst cancelledA) fileB"
    "\<not> isDuplicate fileB (snd cancelledA)"
    by (simp_all add: cancelledA_def handler_defs input_defs)
  have e: "emit (ToastTooLarge ''big.bin'' 2000000 (Some (Num 1000000))) initial =
      initial\<lparr>effects := [ToastTooLarge ''big.bin'' 2000000 (Some (Num 1000000))]\<rparr>"
    "name bigFile = ''big.bin''" "bytes bigFile = 2000000"
    "maxSize (fst (mount (singleProps Null))) = Some (Num 1000000)"
    "name fileA = ''a.png''" "maxFiles (fst oneUploading) = Some (Num 1)"
    by (simp_all add: oneUploading_def handler_defs input_defs)
  from fileFilter_rule_order [of "fst (mount (singleProps Null))" bigFile initial]
    fileFilter_rule_order [of "fst oneUploading" fileA "snd oneUploading"]
    fileFilter_rule_order [of "fst cancelledA" fileA "snd cancelledA"]
    fileFilter_rule_order [of "fst cancelledA" fileB "snd cancelledA"]
    a b d e
  show ?thesis by simp
qed

section \<open>Cleanup on page departure and teardown\<close>

text \<open>
  C4 as stated fails. With two uploads started and none finished, the request carries
  the names of the client's files, and no server response exists that could have
  assigned a name. And when an upload has finished but the component has not rendered
  since, the tracked entry holds the server-assigned name while the request still
  carries the client's name, read from the entries of the last render.
\<close>

theorem cleanup_sends_rendered_client_names:
  "uploadResponse startedA = None \<and> uploadResponse startedB = None \<and>
   name fileA = ''a.png'' \<and> name fileB = ''b.pdf'' \<and>
   effects (cleanupAllFiles True (snd bothStarted)) =
     [SendBeacon [Some ''a.png'', Some ''b.pdf'']] \<and>
   map_option filename (map_of (fileMetadata (snd finishedUnrendered)) ''A'') =
     Some (Some ''tmp-1.png'') \<and>
   effects (cleanupAllFiles True (snd finishedUnrendered)) =
     [OnChange (Ref ''r1''), SendBeacon [Some ''a.png'']]"
  by (simp add: finishedUnrendered_def handler_defs input_defs)

text \<open>
  C4 (as amended). Leaving the page and unmounting both run \<^verbatim>\<open>cleanupAllFiles\<close>, which
  takes the \<^verbatim>\<open>filename\<close> field of every entry tracked at the latest render, in order,
  and issues one request with that list: the beacon when the browser queues it, the
  keepalive \<^verbatim>\<open>fetch\<close> otherwise; with nothing tracked at that render it issues no
  request. The field holds the client's file name from the start event on, and the name
  in the server's response once a finish with a usable reference is merged into the
  entry.
\<close>

theorem cleanupAllFiles_one_batch_request:
  "effects (cleanupAllFiles beacon s) =
     effects s @
       (if fileMetadataRef s = [] then []
        else if beacon then [SendBeacon (map (\<lambda>(i, m). filename m) (fileMetadataRef s))]
        else [FetchKeepalive (map (\<lambda>(i, m). filename m) (fileMetadataRef s))]) \<and>
   handleBeforeUnload beacon s = cleanupAllFiles beacon s \<and>
   unmount beacon s = cleanupAllFiles beacon s \<and>
   fileMetadataRef (snd (FileField p s)) = fileMetadata s \<and>
   map_option filename (map_of (fileMetadata (useItemStartListener it s)) (item_id it)) =
     Some (map_option name (item_file it)) \<and>
   (state it = ''finished'' \<and> usableUrl it = Some u \<and>
    map_of (fileMetadata s) (item_id it) = Some old \<longrightarrow>
      map_option filename (map_of (fileMetadata (useItemFinishListener c it s)) (item_id it)) =
        Some (Option.bind (uploadResponse it) r_filename))"
proof -
  have a: "effects (cleanupAllFiles beacon s) =
     effects s @
       (if fileMetadataRef s = [] then []
        else if beacon then [SendBeacon (map (\<lambda>(i, m). filename m) (fileMetadataRef s))]
        else [FetchKeepalive (map (\<lambda>(i, m). filename m) (fileMetadataRef s))])"
    by (simp add: cleanupAllFiles_def emit_def case_prod_unfold)
  have b: "map_option filename (map_of (fileMetadata (useItemStartListener it s)) (item_id it)) =
     Some (map_option name (item_file it))"
    by (simp add: useItemStartListener_def AList.update_conv')
  have c: "map_option filename
        (map_of (fileMetadata (useItemFinishListener c it s)) (item_id it)) =
      Some (Option.bind (uploadResponse it) r_filename)"
    if "state it = ''finished''" "usableUrl it = Some u"
      "map_of (fileMetadata s) (item_id it) = Some old"
    using that
    by (simp add: useItemFinishListener_def decrement_def onUploaded_def onChange_def
        emit_def confirmed_def Let_def AList.update_conv')
  from a b c show ?thesis
    by (simp add: handleBeforeUnload_def unmount_def FileField_def)
qed

theorem cleanupAllFiles_one_batch_request_witness:
  "effects (snd afterB) = [OnChange (Refs [''r2''])] \<and>
   effects (cleanupAllFiles True (snd afterB)) =
     [OnChange (Refs [''r2'']), SendBeacon [Some ''a.png'', Some ''tmp-2.pdf'']] \<and>
   effects (cleanupAllFiles False (snd afterB)) =
     [OnChange (Refs [''r2'']), FetchKeepalive [Some ''a.png'', Some ''tmp-2.pdf'']] \<and>
   effects (cleanupAllFiles True initial) = [] \<and>
   state finishedB = ''finished'' \<and> usableUrl finishedB = Some ''r2'' \<and>
   map_option filename (map_of (fileMetadata (snd bothStarted)) ''B'') = Some (Some ''b.pdf'') \<and>
   map_option filename
     (map_of (fileMetadata (useItemFinishListener (fst bothStarted) finishedB (snd bothStarted)))
        ''B'') = Some (Some ''tmp-2.pdf'')"
proof -
  let ?old = "\<lparr>url = None, filename = Some ''b.pdf'', originalName = Some ''b.pdf'',
               msize = Some 700, mimetype = Some ''application/pdf'', isUploading = None\<rparr>"
  have r: "fileMetadataRef (snd afterB) =
      [(''A'', \<lparr>url = None, filename = Some ''a.png'', originalName = Some ''a.png'',
                msize = Some 500, mimetype = Some ''image/png'', isUploading = None\<rparr>),
       (''B'', \<lparr>url = Some ''r2'', filename = Some ''tmp-2.pdf'',
                originalName = Some ''b.pdf'', msize = Some 700,
                mimetype = Some ''application/pdf'', isUploading = Some False\<rparr>)]"
    and e: "effects (snd afterB) = [OnChange (Refs [''r2''])]"
    by (simp_all add: afterB_def handler_defs input_defs)
  have i: "fileMetadataRef initial = []" "effects initial = []"
    by (simp_all add: initial_def)
  have f: "state finishedB = ''finished''" "usableUrl finishedB = Some ''r2''"
    "item_id finishedB = ''B''"
    "Option.bind (uploadResponse finishedB) r_filename = Some ''tmp-2.pdf''"
    by (simp_all add: usableUrl_def input_defs)
  have t: "map_of (fileMetadata (snd bothStarted)) ''B'' = Some ?old"
    by (simp add: handler_defs input_defs)
  from cleanupAllFiles_one_batch_request [of True "snd afterB"]
    cleanupAllFiles_one_batch_request [of False "snd afterB"]
    cleanupAllFiles_one_batch_request [of True initial]
    cleanupAllFiles_one_batch_request [of True "snd bothStarted" _ finishedB "''r2''" ?old
      "fst bothStarted"]
    r e i f t
  show ?thesis by simp
qed

section \<open>Finish without a usable reference\<close>

text \<open>
  C6. When the response of a finish event carries no usable reference, the listener
  decrements the counter and changes nothing else: the metadata is as before and the
  callback is not called.
\<close>

theorem finish_without_reference_only_decrements:
  assumes "usableUrl it = None"
  shows "useItemFinishListener c it s =
           s\<lparr>uploadingCountRef := max 0 (uploadingCountRef s - 1)\<rparr>"
  using assms by (simp add: useItemFinishListener_def decrement_def Let_def)

theorem finish_without_reference_only_decrements_witness:
  "usableUrl degradedA = None \<and> state degradedA = ''finished'' \<and>
   uploadingCountRef (snd bothStarted) = 2 \<and>
   useItemFinishListener (fst bothStarted) degradedA (snd bothStarted) =
     (snd bothStarted)\<lparr>uploadingCountRef := 1\<rparr>"
proof -
  have h: "usableUrl degradedA = None" "state degradedA = ''finished''"
    by (simp_all add: usableUrl_def input_defs)
  have n: "uploadingCountRef (snd bothStarted) = 2"
    by (simp add: handler_defs input_defs)
  from finish_without_reference_only_decrements [OF h(1), of "fst bothStarted" "snd bothStarted"]
    h n
  show ?thesis by simp
qed

section \<open>Removing a finished item\<close>

lemma count_list_filter_other:
  "r \<noteq> u \<Longrightarrow> count_list (filter (\<lambda>x. x \<noteq> u) vs) r = count_list vs r"
  by (induction vs) auto

lemma length_filter_count:
  "length (filter (\<lambda>x. x \<noteq> u) vs) = length vs - count_list vs u"
proof (induction vs)
  case Nil
  then show ?case by simp
next
  case (Cons a vs)
  have "count_list vs u \<le> length vs" by (rule count_le_length)
  with Cons.IH show ?case by auto
qed

lemma settle_resumes:
  assumes "find (\<lambda>(j, c'). j = i) xs = None"
  shows "find (\<lambda>(j, c'). j = i) (xs @ [(i, c)]) = Some (i, c)"
    and "remove1 (i, c) (xs @ [(i, c)]) = xs"
proof -
  from assms have n: "\<forall>x \<in> set xs. fst x \<noteq> i"
    by (auto simp: find_None_iff)
  then show "find (\<lambda>(j, c'). j = i) (xs @ [(i, c)]) = Some (i, c)"
    by (induction xs) (auto simp: case_prod_unfold)
  from n have "(i, c) \<notin> set xs" by force
  then show "remove1 (i, c) (xs @ [(i, c)]) = xs"
    by (simp add: remove1_append)
qed

text \<open>
  C7 as stated fails. After both uploads finished before a render, the form's value is
  \<^verbatim>\<open>["r1"]\<close>, of size 1, while B is tracked as finished with the confirmed URL \<^verbatim>\<open>r2\<close>.
  Removing B calls the callback with \<^verbatim>\<open>["r1"]\<close>: the size stays 1.
\<close>

theorem remove_after_stale_merge_keeps_size:
  "map_option url (map_of (c_fileMetadata (fst staleRendered)) ''B'') = Some (Some ''r2'') \<and>
   map_option isUploading (map_of (c_fileMetadata (fst staleRendered)) ''B'') =
     Some (Some False) \<and>
   c_value (fst staleRendered) = Refs [''r1''] \<and>
   effects (snd staleRendered) = [OnChange (Refs [''r2'']), OnChange (Refs [''r1''])] \<and>
   effects (snd (run staleRendered [Click ''B'', DeleteSettled ''B''])) =
     [OnChange (Refs [''r2'']), OnChange (Refs [''r1'']), RemovePreview ''B'',
      FetchDelete ''/api/upload/temp/tmp-2.pdf'', OnChange (Refs [''r1''])]"
  by (simp add: staleRendered_def handler_defs input_defs)

text \<open>
  The callback runs when the \<^verbatim>\<open>DELETE\<close> request has settled, with the value of the
  render of the click: a reference that another upload added in between is not in it.
\<close>

lemma late_settle_drops_finished_sibling:
  "effects (snd (run afterB [Click ''B'', ItemFinish finishedA, DeleteSettled ''B''])) =
     [OnChange (Refs [''r2'']), RemovePreview ''B'',
      FetchDelete ''/api/upload/temp/tmp-2.pdf'', OnChange (Refs [''r2'', ''r1'']),
      OnChange (Refs [])]"
  by (simp add: afterB_def handler_defs input_defs)

text \<open>
  C7 (as amended). Removing an item removes its preview, deletes its tracked entry and
  issues a \<^verbatim>\<open>DELETE\<close> request for the \<^verbatim>\<open>filename\<close> of the entry as rendered. When the
  request has settled, the callback is called with a value computed from the render of
  the click: in multiple mode with an array value, that array without every element
  equal to the item's confirmed URL, so its size is N minus the number of occurrences
  of the URL and every other reference stays, in order; in single mode \<^verbatim>\<open>null\<close>.
\<close>

theorem handleRemove_excludes_reference:
  "effects (handleRemove c i s) =
     effects s @ [RemovePreview i, FetchDelete (deleteUrl (map_of (c_fileMetadata c) i))] \<and>
   map_of (fileMetadata (handleRemove c i s)) i = None \<and>
   (filename m = Some n \<longrightarrow> deleteUrl (Some m) = ''/api/upload/temp/'' @ n) \<and>
   (find (\<lambda>(j, c'). j = i) (awaiting s) = None \<longrightarrow>
      settle i (handleRemove c i s) =
        handleRemove_finally c i ((handleRemove c i s)\<lparr>awaiting := awaiting s\<rparr>)) \<and>
   (isMultiple c \<and> c_value c = Refs vs \<and> map_of (c_fileMetadata c) i = Some m \<and>
    url m = Some u \<longrightarrow>
      effects (handleRemove_finally c i t) =
        effects t @ (if c_onChange c then [OnChange (Refs (filter (\<lambda>r. r \<noteq> u) vs))] else []) \<and>
      length (filter (\<lambda>r. r \<noteq> u) vs) = length vs - count_list vs u \<and>
      u \<notin> set (filter (\<lambda>r. r \<noteq> u) vs) \<and>
      (\<forall>r. r \<noteq> u \<longrightarrow> count_list (filter (\<lambda>r. r \<noteq> u) vs) r = count_list vs r)) \<and>
   (\<not> isMultiple c \<longrightarrow>
      effects (handleRemove_finally c i t) =
        effects t @ (if c_onChange c then [OnChange Null] else []))"
proof -
  have f: "(\<lambda>r. Some r \<noteq> Some u) = (\<lambda>r. r \<noteq> u)" by simp
  have a: "effects (handleRemove c i s) =
     effects s @ [RemovePreview i, FetchDelete (deleteUrl (map_of (c_fileMetadata c) i))]"
    "map_of (fileMetadata (handleRemove c i s)) i = None"
    by (simp_all add: handleRemove_def emit_def Let_def AList.delete_conv')
  have b: "filename m = Some n \<longrightarrow> deleteUrl (Some m) = ''/api/upload/temp/'' @ n"
    by (simp add: deleteUrl_def)
  have d: "settle i (handleRemove c i s) =
        handleRemove_finally c i ((handleRemove c i s)\<lparr>awaiting := awaiting s\<rparr>)"
    if "find (\<lambda>(j, c'). j = i) (awaiting s) = None"
    using settle_resumes [OF that, of c]
    by (simp add: settle_def handleRemove_def emit_def Let_def)
  have e: "effects (handleRemove_finally c i t) =
        effects t @ (if c_onChange c then [OnChange (Refs (filter (\<lambda>r. r \<noteq> u) vs))] else [])"
    if "isMultiple c" "c_value c = Refs vs" "map_of (c_fileMetadata c) i = Some m"
      "url m = Some u"
    using that
    by (simp add: handleRemove_finally_def onChange_def emit_def metadataUrl_def Let_def f)
  have g: "effects (handleRemove_finally c i t) =
        effects t @ (if c_onChange c then [OnChange Null] else [])"
    if "\<not> isMultiple c"
    using that
    by (simp add: handleRemove_finally_def onChange_def emit_def Let_def)
  from a b d e g show ?thesis
    by (simp add: length_filter_count count_list_filter_other)
qed

theorem handleRemove_excludes_reference_witness:
  "isMultiple (fst bothFinished) \<and> c_value (fst bothFinished) = Refs [''r2'', ''r1''] \<and>
   map_option url (map_of (c_fileMetadata (fst bothFinished)) ''B'') = Some (Some ''r2'') \<and>
   awaiting (snd bothFinished) = [] \<and>
   effects (handleRemove (fst bothFinished) ''B'' (snd bothFinished)) =
     effects (snd bothFinished) @
       [RemovePreview ''B'', FetchDelete ''/api/upload/temp/tmp-2.pdf''] \<and>
   effects (settle ''B'' (handleRemove (fst bothFinished) ''B'' (snd bothFinished))) =
     effects (snd bothFinished) @
       [RemovePreview ''B'', FetchDelete ''/api/upload/temp/tmp-2.pdf'',
        OnChange (Refs [''r1''])] \<and>
   \<not> isMultiple (fst oneFinished) \<and> c_value (fst oneFinished) = Ref ''r1'' \<and>
   effects (settle ''A'' (handleRemove (fst oneFinished) ''A'' (snd oneFinished))) =
     effects (snd oneFinished) @
       [RemovePreview ''A'', FetchDelete ''/api/upload/temp/tmp-1.png'', OnChange Null]"
proof -
  let ?mB = "\<lparr>url = Some ''r2'', filename = Some ''tmp-2.pdf'', originalName = Some ''b.pdf'',
              msize = Some 700, mimetype = Some ''application/pdf'', isUploading = Some False\<rparr>"
  let ?mA = "\<lparr>url = Some ''r1'', filename = Some ''tmp-1.png'', originalName = Some ''a.png'',
              msize = Some 500, mimetype = Some ''image/png'', isUploading = Some False\<rparr>"
  let ?sB = "(handleRemove (fst bothFinished) ''B'' (snd bothFinished))
               \<lparr>awaiting := awaiting (snd bothFinished)\<rparr>"
  let ?sA = "(handleRemove (fst oneFinished) ''A'' (snd oneFinished))
               \<lparr>awaiting := awaiting (snd oneFinished)\<rparr>"
  have m: "c_onChange (fst bothFinished)" "isMultiple (fst bothFinished)"
    "c_value (fst bothFinished) = Refs [''r2'', ''r1'']"
    "map_of (c_fileMetadata (fst bothFinished)) ''B'' = Some ?mB"
    "awaiting (snd bothFinished) = []"
    by (simp_all add: bothFinished_def handler_defs input_defs)
  have u: "url ?mB = Some ''r2''" "filename ?mB = Some ''tmp-2.pdf''"
    "filename ?mA = Some ''tmp-1.png''"
    by simp_all
  have o: "c_onChange (fst oneFinished)" "\<not> isMultiple (fst oneFinished)"
    "c_value (fst oneFinished) = Ref ''r1''"
    "map_of (c_fileMetadata (fst oneFinished)) ''A'' = Some ?mA"
    "awaiting (snd oneFinished) = []"
    by (simp_all add: oneFinished_def handler_defs input_defs)
  have d: "deleteUrl (Some ?mA) = ''/api/upload/temp/tmp-1.png''"
    "deleteUrl (Some ?mB) = ''/api/upload/temp/tmp-2.pdf''"
    by (simp_all add: deleteUrl_def)
  have k: "effects ?sB = effects (handleRemove (fst bothFinished) ''B'' (snd bothFinished))"
    "effects ?sA = effects (handleRemove (fst oneFinished) ''A'' (snd oneFinished))"
    by simp_all
  from handleRemove_excludes_reference [of "fst bothFinished" "''B''" "snd bothFinished"
      ?mB "''tmp-2.pdf''" "[''r2'', ''r1'']" "''r2''" ?sB]
    handleRemove_excludes_reference [of "fst oneFinished" "''A''" "snd oneFinished"
      ?mA "''tmp-1.png''" "[]" "''r1''" ?sA]
    m u o d k
  show ?thesis by simp
qed

section \<open>Form reset\<close>

text \<open>
  C8. A reset of the form around the component empties the metadata map and the
  progress map, sets the counter to zero and then calls the callback with the empty
  value: the empty list in multiple mode, \<^verbatim>\<open>null\<close> in single mode.
\<close>

theorem handleFormReset_clears:
  "fileMetadata (handleFormReset c True s) = [] \<and>
   uploadProgress (handleFormReset c True s) = [] \<and>
   uploadingCountRef (handleFormReset c True s) = 0 \<and>
   effects (handleFormReset c True s) =
     effects s @
       (if c_onChange c then [OnChange (if isMultiple c then Refs [] else Null)] else []) \<and>
   fileMetadataRef (snd (FileField p (handleFormReset c True s))) = []"
  by (simp add: handleFormReset_def onChange_def emit_def FileField_def)

theorem handleFormReset_clears_witness:
  "fileMetadata (snd bothFinished) \<noteq> [] \<and>
   fileMetadata (handleFormReset (fst bothFinished) True (snd bothFinished)) = [] \<and>
   uploadProgress (handleFormReset (fst bothFinished) True (snd bothFinished)) = [] \<and>
   uploadingCountRef (handleFormReset (fst bothFinished) True (snd bothFinished)) = 0 \<and>
   effects (handleFormReset (fst bothFinished) True (snd bothFinished)) =
     effects (snd bothFinished) @ [OnChange (Refs [])] \<and>
   effects (handleFormReset (fst oneFinished) True (snd oneFinished)) =
     effects (snd oneFinished) @ [OnChange Null]"
proof -
  have m: "c_onChange (fst bothFinished)" "isMultiple (fst bothFinished)"
    "fileMetadata (snd bothFinished) \<noteq> []"
    by (simp_all add: bothFinished_def handler_defs input_defs)
  have o: "c_onChange (fst oneFinished)" "\<not> isMultiple (fst oneFinished)"
    by (simp_all add: oneFinished_def handler_defs input_defs)
  from handleFormReset_clears [of "fst bothFinished" "snd bothFinished"]
    handleFormReset_clears [of "fst oneFinished" "snd oneFinished"] m o
  show ?thesis by simp
qed

section \<open>Progress entries\<close>

lemma list_all_update:
  "P (k, v) \<Longrightarrow> list_all P al \<Longrightarrow> list_all P (AList.update k v al)"
  by (induction al) auto

lemma list_all_delete: "list_all P al \<Longrightarrow> list_all P (AList.delete k al)"
  by (induction al) auto

lemma incomplete_FileField: "incomplete s \<Longrightarrow> incomplete (snd (FileField p s))"
  by (simp add: incomplete_def FileField_def)

lemma incomplete_fileFilter: "incomplete s \<Longrightarrow> incomplete (snd (fileFilter c f s))"
  by (simp add: incomplete_def fileFilter_def emit_def)

lemma incomplete_start: "incomplete s \<Longrightarrow> incomplete (useItemStartListener it s)"
  by (simp add: incomplete_def useItemStartListener_def)

lemma incomplete_progress: "incomplete s \<Longrightarrow> incomplete (useItemProgressListener it s)"
  by (simp add: incomplete_def useItemProgressListener_def list_all_update list_all_delete)

lemma incomplete_error: "incomplete s \<Longrightarrow> incomplete (useItemErrorListener it s)"
  by (simp add: incomplete_def useItemErrorListener_def decrement_def emit_def list_all_delete)

lemma incomplete_finish: "incomplete s \<Longrightarrow> incomplete (useItemFinishListener c it s)"
  by (simp add: incomplete_def useItemFinishListener_def decrement_def onUploaded_def
      onChange_def emit_def Let_def split: option.split)

lemma incomplete_cancel: "incomplete s \<Longrightarrow> incomplete (handleCancel i s)"
  by (simp add: incomplete_def handleCancel_def decrement_def emit_def list_all_delete)

lemma incomplete_remove: "incomplete s \<Longrightarrow> incomplete (handleRemove c i s)"
  by (simp add: incomplete_def handleRemove_def emit_def Let_def)

lemma incomplete_settle: "incomplete s \<Longrightarrow> incomplete (settle i s)"
  by (simp add: incomplete_def settle_def handleRemove_finally_def onChange_def emit_def
      Let_def split: option.split prod.split)

lemma incomplete_click: "incomplete s \<Longrightarrow> incomplete (onClick c i s)"
  by (simp add: onClick_def incomplete_cancel incomplete_remove split: option.split)

lemma incomplete_reset: "incomplete s \<Longrightarrow> incomplete (handleFormReset c b s)"
  by (simp add: incomplete_def handleFormReset_def onChange_def emit_def)

lemma incomplete_unload: "incomplete s \<Longrightarrow> incomplete (handleBeforeUnload b s)"
  by (simp add: incomplete_def handleBeforeUnload_def cleanupAllFiles_def emit_def Let_def)

lemma incomplete_step: "incomplete (snd cs) \<Longrightarrow> incomplete (snd (step cs e))"
  by (cases cs; cases e)
    (simp_all add: incomplete_FileField incomplete_fileFilter incomplete_start
      incomplete_progress incomplete_error incomplete_finish incomplete_click
      incomplete_settle incomplete_reset incomplete_unload)

lemma incomplete_run: "incomplete (snd cs) \<Longrightarrow> incomplete (snd (run cs es))"
  by (induction es arbitrary: cs) (simp_all add: incomplete_step)

lemma incomplete_mount: "incomplete (snd (mount p))"
  by (simp add: incomplete_def mount_def FileField_def initial_def)

text \<open>
  C9. A progress event below 100 stores the reported percent for the item, an event at
  100 or above deletes the item's entry, other entries stay, and after any sequence of
  events no entry of the progress map is 100 or more.
\<close>

theorem progress_entries_below_100:
  "(num_less (completed it) (Num 100) \<longrightarrow>
      map_of (uploadProgress (useItemProgressListener it s)) (item_id it) = Some (completed it)) \<and>
   (\<not> num_less (completed it) (Num 100) \<longrightarrow>
      map_of (uploadProgress (useItemProgressListener it s)) (item_id it) = None) \<and>
   (k \<noteq> item_id it \<longrightarrow>
      map_of (uploadProgress (useItemProgressListener it s)) k = map_of (uploadProgress s) k) \<and>
   (\<forall>(i, v) \<in> set (uploadProgress (snd (run (mount p) es))).
      num_less v (Num 100) \<and> v \<noteq> Num 100)"
proof -
  have "incomplete (snd (run (mount p) es))"
    by (rule incomplete_run) (rule incomplete_mount)
  then have "\<forall>(i, v) \<in> set (uploadProgress (snd (run (mount p) es))).
      num_less v (Num 100) \<and> v \<noteq> Num 100"
    by (auto simp: incomplete_def list_all_iff)
  then show ?thesis
    by (simp add: useItemProgressListener_def AList.update_conv' AList.delete_conv')
qed

theorem progress_entries_below_100_witness:
  "num_less (completed halfwayA) (Num 100) \<and>
   map_of (uploadProgress (useItemProgressListener halfwayA initial)) ''A'' = Some (Num 50) \<and>
   \<not> num_less (completed doneA) (Num 100) \<and>
   map_of (uploadProgress
     (useItemProgressListener doneA (useItemProgressListener halfwayA initial))) ''A'' = None \<and>
   uploadProgress (snd (run (mount (multipleProps (Refs [])))
     [ItemStart startedA, ItemProgress halfwayA])) = [(''A'', Num 50)] \<and>
   num_less (Num 50) (Num 100)"
proof -
  have h: "num_less (completed halfwayA) (Num 100)" "\<not> num_less (completed doneA) (Num 100)"
    "item_id halfwayA = ''A''" "item_id doneA = ''A''" "completed halfwayA = Num 50"
    by (simp_all add: doneA_def input_defs)
  have r: "uploadProgress (snd (run (mount (multipleProps (Refs [])))
     [ItemStart startedA, ItemProgress halfwayA])) = [(''A'', Num 50)]"
    by (simp add: handler_defs input_defs)
  from progress_entries_below_100 [of halfwayA initial "''B''" "multipleProps (Refs [])"
      "[ItemStart startedA, ItemProgress halfwayA]"]
    progress_entries_below_100 [of doneA "useItemProgressListener halfwayA initial" "''B''"
      "multipleProps (Refs [])" "[]"] h r
  show ?thesis by simp
qed

section \<open>The count limit of a field\<close>

text \<open>
  C10 (as amended). \<^verbatim>\<open>Field.maxFiles\<close> is 1 for a field that is not multiple,
  whatever count is configured, and \<^verbatim>\<open>+Infinity\<close> for a multiple field without a
  configured count; with that limit the filter of a single-mode file field rejects
  every file once the tracked-plus-in-flight count it reads is at least 1.
\<close>

theorem Field_maxFiles_single_is_one:
  "(\<not> Field_isMultiple cfg \<longrightarrow> Field_maxFiles cfg = Num 1) \<and>
   (Field_isMultiple cfg \<and> config_maxFiles cfg = None \<longrightarrow> Field_maxFiles cfg = Infinity) \<and>
   (\<not> Field_isMultiple cfg \<and> 1 \<le> currentCount s \<longrightarrow>
      limitReached (fst (FileField (fileProps cfg v) s0)) s \<and>
      \<not> fst (fileFilter (fst (FileField (fileProps cfg v) s0)) f s))"
  by (simp add: Field_maxFiles_def fileProps_def FileField_def limitReached_def fileFilter_def)

theorem Field_maxFiles_single_is_one_witness:
  "\<not> Field_isMultiple singleConfig \<and> config_maxFiles singleConfig = Some (Num 5) \<and>
   Field_maxFiles singleConfig = Num 1 \<and>
   Field_isMultiple multipleConfig \<and> config_maxFiles multipleConfig = None \<and>
   Field_maxFiles multipleConfig = Infinity \<and>
   1 \<le> currentCount (snd oneFinished) \<and>
   \<not> fst (fileFilter (fst (FileField (fileProps singleConfig (Ref ''r1'')) (snd oneFinished)))
           fileB (snd oneFinished))"
proof -
  have h: "\<not> Field_isMultiple singleConfig" "config_maxFiles singleConfig = Some (Num 5)"
    "Field_isMultiple multipleConfig" "config_maxFiles multipleConfig = None"
    by (simp_all add: Field_isMultiple_def singleConfig_def multipleConfig_def)
  have n: "1 \<le> currentCount (snd oneFinished)"
    by (simp add: oneFinished_def handler_defs input_defs)
  from Field_maxFiles_single_is_one [of singleConfig "snd oneFinished" "Ref ''r1''"
      "snd oneFinished" fileB]
    Field_maxFiles_single_is_one [of multipleConfig "snd oneFinished" "Ref ''r1''"
      "snd oneFinished" fileB] h n
  show ?thesis by simp
qed

text \<open>
  C10 as stated fails in its last clause. In a single-mode field whose limit is 1, the
  filter accepts a first file and, before any upload has started, a second one: the
  count it reads changes only when an upload starts.
\<close>

theorem single_mode_admits_two_of_one_selection:
  "\<not> Field_isMultiple singleConfig \<and>
   maxFiles (fst singleField) = Some (Num 1) \<and>
   fileFilter (fst singleField) fileA (snd singleField) = (True, snd singleField) \<and>
   fileFilter (fst singleField) fileB (snd (fileFilter (fst singleField) fileA (snd singleField))) =
     (True, snd singleField) \<and>
   effects (snd (run singleField [Selected fileA, Selected fileB])) = []"
  by (simp add: singleField_def singleConfig_def fileProps_def Field_isMultiple_def
      Field_maxFiles_def Field_maxSize_def handler_defs input_defs)

end
